theory Spec2Isabelle
  imports Complex_Main "HOL-Library.Multiset"
begin

section \<open>Data model (src/src/langgraph/state.py)\<close>

text \<open>
  Python floats are modelled as exact real numbers: the arithmetic of the consensus and
  cost nodes is the arithmetic of the formulas, without the rounding error of IEEE
  doubles (which can move a result in its last bits: a mean of equal doubles need not be
  that double). Python
  dictionaries that are iterated (\<open>hypotheses\<close>, \<open>retry_count\<close>) are association lists in
  insertion order. Wall-clock reads (\<open>datetime.utcnow\<close>, \<open>time.time\<close>) are inputs of
  the node functions, collected in the record \<open>clock\<close>.
\<close>

datatype json =
    JNull
  | JBool bool
  | JInt int
  | JFloat real
  | JStr string
  | JArr "json list"
  | JObj "(string \<times> json) list"

type_synonym jdict = "(string \<times> json) list"

text \<open>\<open>d.get(k)\<close>, \<open>k in d\<close>, \<open>d.get(k, default)\<close> and \<open>{**d, k: v}\<close> on insertion-ordered dicts.\<close>

fun dict_lookup :: "('k \<times> 'v) list \<Rightarrow> 'k \<Rightarrow> 'v option" where
  "dict_lookup [] k = None"
| "dict_lookup ((k', v) # d) k = (if k' = k then Some v else dict_lookup d k)"

definition dict_get :: "('k \<times> 'v) list \<Rightarrow> 'k \<Rightarrow> 'v \<Rightarrow> 'v" where
  "dict_get d k dflt = (case dict_lookup d k of None \<Rightarrow> dflt | Some v \<Rightarrow> v)"

fun dict_set :: "('k \<times> 'v) list \<Rightarrow> 'k \<Rightarrow> 'v \<Rightarrow> ('k \<times> 'v) list" where
  "dict_set [] k v = [(k, v)]"
| "dict_set ((k', v') # d) k v = (if k' = k then (k, v) # d else (k', v') # dict_set d k v)"

definition dict_values :: "('k \<times> 'v) list \<Rightarrow> 'v list" where
  "dict_values d = map snd d"

record AgentInput =
  incident_id :: string
  evidence_bundle :: jdict
  in_timestamp :: string
  in_execution_id :: string
  in_session_id :: string
  in_context :: "jdict option"
  in_replay_metadata :: "jdict option"

text \<open>The \<open>cost\<close> dict of an agent output; a key that is absent is \<open>None\<close>.\<close>

record cost_metadata =
  inputTokens :: "int option"
  outputTokens :: "int option"
  estimatedCost :: "real option"
  model :: "string option"

record replay_meta =
  deterministicHash :: string
  schemaVersion :: string

record AgentOutput =
  agent_id :: string
  agent_version :: string
  execution_id :: string
  out_timestamp :: string
  duration :: int
  status :: string
  confidence :: real
  reasoning :: string
  disclaimer :: string
  findings :: jdict
  citations :: "json list option"
  cost :: cost_metadata
  error :: "json option"
  replay_metadata :: replay_meta

record ConsensusResult =
  aggregated_confidence :: real
  agreement_level :: real
  conflicts_detected :: "jdict list"
  unified_recommendation :: string
  minority_opinions :: "string list"
  quality_metrics :: "(string \<times> real) list"
  cons_timestamp :: string

record agent_cost =
  ac_inputTokens :: int
  ac_outputTokens :: int
  ac_cost :: real
  ac_model :: string

record projections_t =
  monthlyBurn :: real
  incidentsRemaining :: int

record CostGuardianResult =
  total_cost :: real
  cg_budget_remaining :: real
  budget_exceeded :: bool
  per_agent_cost :: "(string \<times> agent_cost) list"
  projections :: projections_t
  cg_timestamp :: string

record StructuredError =
  err_agent_id :: string
  error_code :: string
  message :: string
  retryable :: bool
  err_timestamp :: string
  retry_attempt :: int
  details :: "jdict option"

record ExecutionTraceEntry =
  node_id :: string
  tr_timestamp :: string
  duration_ms :: int
  tr_status :: string
  metadata :: "jdict option"

record GraphState =
  agent_input :: AgentInput
  hypotheses :: "(string \<times> AgentOutput) list"
  consensus :: "ConsensusResult option"
  cost_guardian :: "CostGuardianResult option"
  budget_remaining :: real
  retry_count :: "(string \<times> int) list"
  execution_trace :: "ExecutionTraceEntry list"
  errors :: "StructuredError list"
  session_id :: string
  start_timestamp :: string

record clock =
  now_started :: string
  now_output :: string
  now_error :: string
  now_trace :: string
  elapsed_ms :: int

section \<open>Python numerics\<close>

text \<open>\<open>round(x, n)\<close> rounds to the nearest multiple of \<open>10^-n\<close>, ties to the even one.\<close>

definition round_half_even :: "real \<Rightarrow> int" where
  "round_half_even x =
     (let f = \<lfloor>x\<rfloor>; d = x - of_int f
      in if d < 1 / 2 then f
         else if 1 / 2 < d then f + 1
         else if even f then f else f + 1)"

definition py_round :: "real \<Rightarrow> nat \<Rightarrow> real" where
  "py_round x n = of_int (round_half_even (x * 10 ^ n)) / 10 ^ n"

text \<open>\<open>int(x)\<close> on a float truncates towards zero.\<close>

definition py_int :: "real \<Rightarrow> int" where
  "py_int x = (if 0 \<le> x then \<lfloor>x\<rfloor> else \<lceil>x\<rceil>)"

section \<open>Cost guardian (src/infra/phase6/lambda/cost_guardian_node.py)\<close>

definition INCIDENTS_PER_DAY :: int where
  "INCIDENTS_PER_DAY = 10"

definition DAYS_PER_MONTH :: int where
  "DAYS_PER_MONTH = 30"

definition agent_cost_of :: "AgentOutput \<Rightarrow> agent_cost" where
  "agent_cost_of output =
     (let cost_metadata = cost output
      in \<lparr> ac_inputTokens = (case inputTokens cost_metadata of None \<Rightarrow> 0 | Some t \<Rightarrow> t),
           ac_outputTokens = (case outputTokens cost_metadata of None \<Rightarrow> 0 | Some t \<Rightarrow> t),
           ac_cost = (case estimatedCost cost_metadata of None \<Rightarrow> 0 | Some c \<Rightarrow> c),
           ac_model = (case model cost_metadata of None \<Rightarrow> ''N/A'' | Some m \<Rightarrow> m) \<rparr>)"

fun aggregate_per_agent_costs ::
  "(string \<times> AgentOutput) list \<Rightarrow> (string \<times> agent_cost) list \<Rightarrow> (string \<times> agent_cost) list" where
  "aggregate_per_agent_costs [] per_agent_costs = per_agent_costs"
| "aggregate_per_agent_costs ((aid, output) # hs) per_agent_costs =
     aggregate_per_agent_costs hs (dict_set per_agent_costs aid (agent_cost_of output))"

definition calculate_total_cost :: "(string \<times> agent_cost) list \<Rightarrow> real" where
  "calculate_total_cost per_agent_costs =
     (let tcost = sum_list (map ac_cost (dict_values per_agent_costs))
      in py_round tcost 6)"

definition calculate_budget_remaining :: "real \<Rightarrow> real \<Rightarrow> real" where
  "calculate_budget_remaining budget_remaining_before tcost =
     budget_remaining_before - tcost"

definition check_budget_exceeded :: "real \<Rightarrow> real \<Rightarrow> bool" where
  "check_budget_exceeded tcost budget_remaining_before =
     (if budget_remaining_before < 0 then True
      else tcost > budget_remaining_before)"

definition project_monthly_burn :: "real \<Rightarrow> int \<Rightarrow> real" where
  "project_monthly_burn tcost incidents_per_day =
     tcost * of_int incidents_per_day * of_int DAYS_PER_MONTH"

definition estimate_incidents_remaining :: "real \<Rightarrow> real \<Rightarrow> int" where
  "estimate_incidents_remaining budget_remaining_after tcost =
     (if tcost \<le> 0 then 0
      else if budget_remaining_after \<le> 0 then 0
      else py_int (budget_remaining_after / tcost))"

text \<open>The \<open>add_execution_trace\<close> of the two deterministic nodes stores \<open>metadata or {}\<close>.\<close>

definition add_execution_trace_det ::
  "string \<Rightarrow> GraphState \<Rightarrow> string \<Rightarrow> int \<Rightarrow> string \<Rightarrow> jdict option \<Rightarrow> GraphState" where
  "add_execution_trace_det now state nid dur st md =
     (let trace_entry = \<lparr> node_id = nid, tr_timestamp = now, duration_ms = dur, tr_status = st,
                           metadata = Some (case md of None \<Rightarrow> [] | Some m \<Rightarrow> m) \<rparr>
      in state\<lparr> execution_trace := execution_trace state @ [trace_entry] \<rparr>)"

definition cost_guardian_node :: "clock \<Rightarrow> GraphState \<Rightarrow> GraphState" where
  "cost_guardian_node clk state =
     (let hyps = hypotheses state;
          budget_remaining_before = budget_remaining state;
          per_agent_costs = aggregate_per_agent_costs hyps [];
          tcost = calculate_total_cost per_agent_costs;
          budget_remaining_after = calculate_budget_remaining budget_remaining_before tcost;
          exceeded = check_budget_exceeded tcost budget_remaining_before;
          monthly_burn = project_monthly_burn tcost INCIDENTS_PER_DAY;
          incidents_remaining = estimate_incidents_remaining budget_remaining_after tcost;
          cost_guardian_result =
            \<lparr> total_cost = tcost,
              cg_budget_remaining = budget_remaining_after,
              budget_exceeded = exceeded,
              per_agent_cost = per_agent_costs,
              projections = \<lparr> monthlyBurn = monthly_burn,
                              incidentsRemaining = incidents_remaining \<rparr>,
              cg_timestamp = now_output clk \<rparr>;
          new_state = state\<lparr> cost_guardian := Some cost_guardian_result,
                             budget_remaining := budget_remaining_after \<rparr>
      in add_execution_trace_det (now_trace clk) new_state ''cost-guardian'' (elapsed_ms clk)
           ''COMPLETED''
           (Some [(''total_cost'', JFloat tcost),
                  (''budget_remaining'', JFloat budget_remaining_after),
                  (''budget_exceeded'', JBool exceeded)]))"

section \<open>Agent invoker (src/src/langgraph/agent_node.py)\<close>

text \<open>
  A Python exception is a value: a botocore \<open>ClientError\<close> with its optional
  \<open>response["Error"]["Code"]\<close>, or any other exception with the name of its class. Both
  carry the text that \<open>str(e)\<close> returns.
\<close>

datatype exn =
    ClientError "string option" string
  | PyExn string string

fun exn_str :: "exn \<Rightarrow> string" where
  "exn_str (ClientError c m) = m"
| "exn_str (PyExn n m) = m"

definition MAX_RETRIES :: int where
  "MAX_RETRIES = 2"

definition RETRYABLE_ERROR_CODES :: "string list" where
  "RETRYABLE_ERROR_CODES =
     [''ThrottlingException'', ''TooManyRequestsException'',
      ''ServiceUnavailableException'', ''InternalServerException'',
      ''TimeoutException'',
      ''RATE_LIMIT_EXCEEDED'', ''BEDROCK_THROTTLING'']"

definition NON_RETRYABLE_ERROR_CODES :: "string list" where
  "NON_RETRYABLE_ERROR_CODES =
     [''ValidationException'', ''INVALID_INPUT'', ''MISSING_REQUIRED_FIELD'',
      ''SCHEMA_VALIDATION_FAILED'',
      ''AccessDeniedException'', ''UnauthorizedException'',
      ''ResourceNotFoundException'',
      ''BUDGET_EXCEEDED'',
      ''OUTPUT_VALIDATION_FAILED'', ''LOW_CONFIDENCE'']"

definition ERROR_CODE_MAPPING :: "(string \<times> string) list" where
  "ERROR_CODE_MAPPING =
     [(''ThrottlingException'', ''BEDROCK_THROTTLING''),
      (''ServiceUnavailableException'', ''DATA_SOURCE_UNAVAILABLE''),
      (''ValidationException'', ''INVALID_INPUT''),
      (''AccessDeniedException'', ''INTERNAL_ERROR''),
      (''ResourceNotFoundException'', ''INTERNAL_ERROR''),
      (''InternalServerException'', ''INTERNAL_ERROR''),
      (''TooManyRequestsException'', ''RATE_LIMIT_EXCEEDED''),
      (''TimeoutError'', ''TIMEOUT''),
      (''ValidationError'', ''SCHEMA_VALIDATION_FAILED''),
      (''OutputValidationError'', ''OUTPUT_VALIDATION_FAILED''),
      (''Exception'', ''UNKNOWN_ERROR'')]"

text \<open>Prices in USD per 1K tokens: (input, output).\<close>

definition MODEL_PRICING :: "(string \<times> real \<times> real) list" where
  "MODEL_PRICING =
     [(''anthropic.claude-3-5-sonnet-20241022-v2:0'', (3 / 1000, 15 / 1000)),
      (''default'', (3 / 1000, 15 / 1000))]"

definition is_retryable_error :: "string \<Rightarrow> bool" where
  "is_retryable_error code = (code \<in> set RETRYABLE_ERROR_CODES)"

fun map_exception_to_error_code :: "exn \<Rightarrow> string" where
  "map_exception_to_error_code (ClientError c m) =
     dict_get ERROR_CODE_MAPPING (case c of None \<Rightarrow> ''Exception'' | Some k \<Rightarrow> k)
       ''UNKNOWN_ERROR''"
| "map_exception_to_error_code (PyExn exception_name m) =
     dict_get ERROR_CODE_MAPPING exception_name ''UNKNOWN_ERROR''"

text \<open>
  The transport response of \<open>invoke_agent\<close>, as far as the node reads it. Reading the next
  event of the \<open>completion\<close> stream either raises (\<open>Inl\<close>: a transport error, or bytes that
  do not decode) or gives an event: \<open>Some text\<close> when it has a chunk with bytes, \<open>None\<close>
  otherwise. \<open>output_text\<close> is \<open>response["output"]["text"]\<close> when both keys are
  there, and \<open>keys_repr\<close> is the text of \<open>list(response.keys())\<close>, which an error message
  quotes.
\<close>

record bedrock_response =
  guardrailAction :: "string option"
  completion :: "(exn + string option) list option"
  output_text :: "string option"
  usage_inputTokens :: "int option"
  usage_outputTokens :: "int option"
  modelId :: "string option"
  keys_repr :: string

text \<open>The request; \<open>inputText\<close> is the dict that the node serialises with \<open>json.dumps\<close>.\<close>

record bedrock_request =
  agentId :: string
  agentAliasId :: string
  sessionId :: string
  inputText :: jdict
  guardrailIdentifier :: "string option"
  guardrailVersion :: "string option"
  enableTrace :: bool

text \<open>
  The JSON object an agent answers with, at the declared types of \<open>AgentOutput\<close>; the
  confidence stays untyped JSON because the validator checks its type itself.
\<close>

record raw_output =
  ro_confidence :: "json option"
  ro_findings :: "jdict option"
  ro_disclaimer :: "string option"
  ro_status :: "string option"
  ro_reasoning :: "string option"
  ro_citations :: "json list option"
  ro_error :: "json option"

text \<open>
  What the node calls outside the repository: the Bedrock client, the JSON parser (\<open>Inl\<close>
  carries the text of the \<open>JSONDecodeError\<close>), the canonical JSON printer
  \<open>json.dumps(_, sort_keys=True)\<close>, SHA-256, \<open>str\<close> on a JSON value, and the two
  environment variables of the guardrail.
\<close>

record env =
  invoke_agent :: "bedrock_request \<Rightarrow> exn + bedrock_response"
  json_loads :: "string \<Rightarrow> string + raw_output"
  json_dumps_sorted :: "json \<Rightarrow> string"
  sha256_hexdigest :: "string \<Rightarrow> string"
  py_str :: "json \<Rightarrow> string"
  GUARDRAIL_ID :: "string option"
  GUARDRAIL_VERSION :: string

record agent_cfg =
  cfg_agent_id :: string
  cfg_agent_version :: string
  bedrock_agent_id :: string
  bedrock_agent_alias_id :: string
  max_retries :: int
  timeout_seconds :: int

definition extract_cost_metadata :: "bedrock_response option \<Rightarrow> string option \<Rightarrow> cost_metadata" where
  "extract_cost_metadata response failure_type =
     (case response of
        None \<Rightarrow> \<lparr> inputTokens = Some 0, outputTokens = Some 0, estimatedCost = Some 0,
                  model = Some ''N/A'' \<rparr>
      | Some r \<Rightarrow>
          (let input_tokens = (case usage_inputTokens r of None \<Rightarrow> 0 | Some t \<Rightarrow> t);
               output_tokens = (case usage_outputTokens r of None \<Rightarrow> 0 | Some t \<Rightarrow> t);
               model_id = (case modelId r of None \<Rightarrow> ''unknown'' | Some m \<Rightarrow> m);
               pricing = dict_get MODEL_PRICING model_id (dict_get MODEL_PRICING ''default'' (0, 0));
               input_cost = (of_int input_tokens / 1000) * fst pricing;
               output_cost = (of_int output_tokens / 1000) * snd pricing;
               estimated_cost = input_cost + output_cost
           in \<lparr> inputTokens = Some input_tokens, outputTokens = Some output_tokens,
                estimatedCost = Some (py_round estimated_cost 6), model = Some model_id \<rparr>))"

text \<open>\<open>round(confidence, 4)\<close>: an int (or bool) comes back as an int, a float rounded.\<close>

fun round_confidence :: "json \<Rightarrow> json" where
  "round_confidence (JBool b) = JInt (if b then 1 else 0)"
| "round_confidence (JInt i) = JInt i"
| "round_confidence (JFloat x) = JFloat (py_round x 4)"
| "round_confidence j = j"

definition canonical :: "AgentInput \<Rightarrow> jdict \<Rightarrow> json \<Rightarrow> json" where
  "canonical ai fnd conf =
     JObj [(''agent_input'',
              JObj [(''incident_id'', JStr (incident_id ai)),
                    (''evidence_bundle'', JObj (evidence_bundle ai)),
                    (''execution_id'', JStr (in_execution_id ai))]),
           (''findings'', JObj fnd),
           (''confidence'', round_confidence conf)]"

definition compute_deterministic_hash :: "env \<Rightarrow> AgentInput \<Rightarrow> jdict \<Rightarrow> json \<Rightarrow> string" where
  "compute_deterministic_hash e ai fnd conf =
     (let canonical_json = json_dumps_sorted e (canonical ai fnd conf)
      in sha256_hexdigest e canonical_json)"

definition ValueError :: "string \<Rightarrow> exn" where
  "ValueError m = PyExn ''ValueError'' m"

definition validate_agent_input :: "AgentInput \<Rightarrow> exn option" where
  "validate_agent_input ai =
     (if incident_id ai = [] then Some (ValueError ''incident_id is required'')
      else if evidence_bundle ai = [] then Some (ValueError ''evidence_bundle is required'')
      else if in_timestamp ai = [] then Some (ValueError ''timestamp is required'')
      else if in_execution_id ai = [] then Some (ValueError ''execution_id is required'')
      else if in_session_id ai = [] then Some (ValueError ''session_id is required'')
      else None)"

fun starts_with :: "'a list \<Rightarrow> 'a list \<Rightarrow> bool" where
  "starts_with [] s = True"
| "starts_with (p # ps) [] = False"
| "starts_with (p # ps) (x # xs) = (p = x \<and> starts_with ps xs)"

text \<open>\<open>p in s\<close> on strings.\<close>

fun is_substring :: "'a list \<Rightarrow> 'a list \<Rightarrow> bool" where
  "is_substring p [] = (p = [])"
| "is_substring p (x # xs) = (starts_with p (x # xs) \<or> is_substring p xs)"

text \<open>The numeric value of a JSON value that is an instance of \<open>int\<close> or \<open>float\<close>.\<close>

fun json_num :: "json \<Rightarrow> real option" where
  "json_num (JBool b) = Some (if b then 1 else 0)"
| "json_num (JInt i) = Some (of_int i)"
| "json_num (JFloat x) = Some x"
| "json_num j = None"

definition validate_agent_output :: "env \<Rightarrow> raw_output \<Rightarrow> exn option" where
  "validate_agent_output e raw =
     (case ro_confidence raw of
        None \<Rightarrow> Some (ValueError ''Missing required field: confidence'')
      | Some conf \<Rightarrow>
     (case ro_findings raw of
        None \<Rightarrow> Some (ValueError ''Missing required field: findings'')
      | Some fnd \<Rightarrow>
     (case ro_disclaimer raw of
        None \<Rightarrow> Some (ValueError ''Missing required field: disclaimer'')
      | Some disc \<Rightarrow>
     (case ro_status raw of
        None \<Rightarrow> Some (ValueError ''Missing required field: status'')
      | Some st \<Rightarrow>
          if (case json_num conf of None \<Rightarrow> True | Some c \<Rightarrow> \<not> (0 \<le> c \<and> c \<le> 1))
          then Some (ValueError (''confidence must be in range [0.0, 1.0], got '' @ py_str e conf))
          else if st \<notin> set [''SUCCESS'', ''PARTIAL'', ''TIMEOUT'', ''FAILURE'']
          then Some (ValueError (''Invalid status: '' @ st))
          else if \<not> is_substring ''HYPOTHESIS_ONLY_NOT_AUTHORITATIVE'' disc
          then Some (ValueError
                 (''disclaimer must contain '' @ [CHR 0x27] @ ''HYPOTHESIS_ONLY_NOT_AUTHORITATIVE''
                    @ [CHR 0x27]))
          else if fnd = [] then Some (ValueError ''findings cannot be empty'')
          else None))))"

text \<open>The \<open>add_execution_trace\<close> of this module stores the metadata as it is given.\<close>

definition add_execution_trace ::
  "string \<Rightarrow> GraphState \<Rightarrow> string \<Rightarrow> int \<Rightarrow> string \<Rightarrow> jdict option \<Rightarrow> GraphState" where
  "add_execution_trace now state nid dur st md =
     (let trace_entry = \<lparr> node_id = nid, tr_timestamp = now, duration_ms = dur, tr_status = st,
                           metadata = md \<rparr>
      in state\<lparr> execution_trace := execution_trace state @ [trace_entry] \<rparr>)"

definition increment_retry_count :: "GraphState \<Rightarrow> string \<Rightarrow> GraphState" where
  "increment_retry_count state aid =
     (let current_count = dict_get (retry_count state) aid 0
      in state\<lparr> retry_count := dict_set (retry_count state) aid (current_count + 1) \<rparr>)"

definition create_failure_hypothesis ::
  "string \<Rightarrow> string \<Rightarrow> string \<Rightarrow> string \<Rightarrow> string \<Rightarrow> string \<Rightarrow> bool \<Rightarrow> int \<Rightarrow> cost_metadata
     \<Rightarrow> AgentOutput" where
  "create_failure_hypothesis now aid aversion exec_id code msg retr attempt cst =
     \<lparr> agent_id = aid,
       agent_version = aversion,
       execution_id = exec_id,
       out_timestamp = now,
       duration = 0,
       status = ''FAILURE'',
       confidence = 0,
       reasoning = ''Agent failed: '' @ msg,
       disclaimer = ''HYPOTHESIS_ONLY_NOT_AUTHORITATIVE'',
       findings = [(''error'', JStr code)],
       citations = None,
       cost = cst,
       error = Some (JObj [(''code'', JStr code),
                           (''message'', JStr msg),
                           (''retryable'', JBool retr),
                           (''details'', JObj [(''retry_attempt'', JInt attempt)])]),
       replay_metadata = \<lparr> deterministicHash = ''FAILURE'', schemaVersion = ''1.0.0'' \<rparr> \<rparr>"

text \<open>
  The body of the \<open>try\<close> block up to the validated output. A failure carries the exception
  and the transport response if \<open>bedrock_response\<close> was already bound when it was raised.
  The guardrail logging calls and the trace emission sit in their own \<open>try/except\<close>,
  swallow every exception and touch no state: they have no counterpart here.
\<close>

definition build_bedrock_request :: "env \<Rightarrow> agent_cfg \<Rightarrow> GraphState \<Rightarrow> bedrock_request" where
  "build_bedrock_request e cfg state =
     (let ai = agent_input state
      in \<lparr> agentId = bedrock_agent_id cfg,
           agentAliasId = bedrock_agent_alias_id cfg,
           sessionId = in_session_id ai,
           inputText = [(''incidentId'', JStr (incident_id ai)),
                        (''evidenceBundle'', JObj (evidence_bundle ai)),
                        (''timestamp'', JStr (in_timestamp ai)),
                        (''executionId'', JStr (in_execution_id ai)),
                        (''budgetRemaining'', JFloat (budget_remaining state))],
           guardrailIdentifier =
             (case GUARDRAIL_ID e of None \<Rightarrow> None
              | Some g \<Rightarrow> if g = [] then None else Some g),
           guardrailVersion =
             (case GUARDRAIL_ID e of None \<Rightarrow> None
              | Some g \<Rightarrow> if g = [] then None else Some (GUARDRAIL_VERSION e)),
           enableTrace = True \<rparr>)"

fun collect_chunks :: "(exn + string option) list \<Rightarrow> string \<Rightarrow> exn + string" where
  "collect_chunks [] completion_text = Inr completion_text"
| "collect_chunks (Inl ex # events) completion_text = Inl ex"
| "collect_chunks (Inr None # events) completion_text = collect_chunks events completion_text"
| "collect_chunks (Inr (Some chunk_text) # events) completion_text =
     collect_chunks events (completion_text @ chunk_text)"

definition no_final_output_hint :: string where
  "no_final_output_hint =
     ''This usually means the agent has no action groups and is not configured to produce final output. ''"

definition parse_response :: "env \<Rightarrow> string \<Rightarrow> bedrock_response \<Rightarrow> exn + raw_output" where
  "parse_response e aid response =
     (case completion response of
        Some events \<Rightarrow>
          (case collect_chunks events [] of
             Inl ex \<Rightarrow> Inl ex
           | Inr completion_text \<Rightarrow>
               if completion_text \<noteq> [] then
                 (case json_loads e completion_text of
                    Inr raw \<Rightarrow> Inr raw
                  | Inl decode_error \<Rightarrow>
                      Inl (ValueError (''Agent '' @ aid @ '' returned non-JSON response. ''
                             @ no_final_output_hint @ ''Response: '' @ take 200 completion_text)))
               else Inl (ValueError (''Agent '' @ aid @ '' returned empty response'')))
      | None \<Rightarrow>
          (case output_text response of
             Some t \<Rightarrow>
               (case json_loads e t of
                  Inr raw \<Rightarrow> Inr raw
                | Inl decode_error \<Rightarrow> Inl (PyExn ''JSONDecodeError'' decode_error))
           | None \<Rightarrow>
               Inl (ValueError (''Agent '' @ aid @ '' returned empty response. ''
                      @ no_final_output_hint @ ''Response keys: '' @ keys_repr response))))"

definition invoke_and_validate ::
  "env \<Rightarrow> agent_cfg \<Rightarrow> GraphState \<Rightarrow> (exn \<times> bedrock_response option) + (raw_output \<times> bedrock_response)" where
  "invoke_and_validate e cfg state =
     (case validate_agent_input (agent_input state) of
        Some ex \<Rightarrow> Inl (ex, None)
      | None \<Rightarrow>
     (case invoke_agent e (build_bedrock_request e cfg state) of
        Inl ex \<Rightarrow> Inl (ex, None)
      | Inr response \<Rightarrow>
          if guardrailAction response = Some ''BLOCKED''
          then Inl (ValueError ''Request blocked by guardrails'', Some response)
          else
            (case parse_response e (cfg_agent_id cfg) response of
               Inl ex \<Rightarrow> Inl (ex, Some response)
             | Inr raw \<Rightarrow>
                 (case validate_agent_output e raw of
                    Some ex \<Rightarrow> Inl (ex, Some response)
                  | None \<Rightarrow> Inr (raw, response)))))"

text \<open>
  The node that \<open>create_agent_node\<close> returns; \<open>success_output\<close> is the \<open>AgentOutput\<close>
  of its step 6, whose fields the validator has found present. \<open>Inl\<close> is the \<open>RuntimeError\<close> of a
  misconfigured agent, raised before the \<open>try\<close> block and therefore propagated; every
  other outcome is a new state.
\<close>

text \<open>\<open>repr\<close> of a string that holds no quote, backslash or control character.\<close>

definition repr_str :: "string \<Rightarrow> string" where
  "repr_str s = [CHR 0x27] @ s @ [CHR 0x27]"

definition success_output ::
  "env \<Rightarrow> clock \<Rightarrow> agent_cfg \<Rightarrow> AgentInput \<Rightarrow> raw_output \<Rightarrow> bedrock_response \<Rightarrow> AgentOutput" where
  "success_output e clk cfg ai raw response =
     \<lparr> agent_id = cfg_agent_id cfg,
       agent_version = cfg_agent_version cfg,
       execution_id = in_execution_id ai,
       out_timestamp = now_output clk,
       duration = elapsed_ms clk,
       status = the (ro_status raw),
       confidence = the (json_num (the (ro_confidence raw))),
       reasoning = (case ro_reasoning raw of None \<Rightarrow> [] | Some r \<Rightarrow> r),
       disclaimer = the (ro_disclaimer raw),
       findings = the (ro_findings raw),
       citations = ro_citations raw,
       cost = extract_cost_metadata (Some response) None,
       error = ro_error raw,
       replay_metadata =
         \<lparr> deterministicHash =
             compute_deterministic_hash e ai (the (ro_findings raw)) (the (ro_confidence raw)),
           schemaVersion = ''1.0.0'' \<rparr> \<rparr>"

definition agent_node :: "env \<Rightarrow> clock \<Rightarrow> agent_cfg \<Rightarrow> GraphState \<Rightarrow> exn + GraphState" where
  "agent_node e clk cfg state0 =
     (let aid = cfg_agent_id cfg;
          ai = agent_input state0;
          attempt = dict_get (retry_count state0) aid 0
      in if bedrock_agent_id cfg = [] \<or> bedrock_agent_alias_id cfg = []
         then Inl (PyExn ''RuntimeError''
                (''Agent '' @ aid @ '' misconfigured: missing Bedrock agent ID or alias. ''
                 @ ''agent_id='' @ repr_str (bedrock_agent_id cfg)
                 @ '', alias_id='' @ repr_str (bedrock_agent_alias_id cfg)))
         else
           (let state = add_execution_trace (now_started clk) state0 aid 0 ''STARTED''
                          (Some [(''retry_attempt'', JInt attempt)])
            in case invoke_and_validate e cfg state of
                 Inr (raw, response) \<Rightarrow>
                   (let dur = elapsed_ms clk;
                        agent_output = success_output e clk cfg ai raw response;
                        new_state = state\<lparr> hypotheses := dict_set (hypotheses state) aid agent_output \<rparr>
                    in Inr (add_execution_trace (now_trace clk) new_state aid dur ''COMPLETED''
                              (Some [(''confidence'', the (ro_confidence raw)),
                                     (''status'', JStr (status agent_output))])))
               | Inl (ex, response) \<Rightarrow>
                   (let dur = elapsed_ms clk;
                        code = map_exception_to_error_code ex;
                        msg = exn_str ex;
                        retr = is_retryable_error code
                    in if retr \<and> attempt < max_retries cfg
                       then
                         (let new_state = add_execution_trace (now_trace clk) state aid dur
                                ''RETRYING''
                                (Some [(''error_code'', JStr code),
                                       (''retry_attempt'', JInt attempt)])
                          in Inr (increment_retry_count new_state aid))
                       else
                         (let cst = extract_cost_metadata response (Some code);
                              structured_error =
                                \<lparr> err_agent_id = aid, error_code = code, message = msg,
                                  retryable = retr, err_timestamp = now_error clk,
                                  retry_attempt = attempt, details = None \<rparr>;
                              failure_output =
                                create_failure_hypothesis (now_output clk) aid
                                  (cfg_agent_version cfg) (in_execution_id ai) code msg retr
                                  attempt cst;
                              new_state = state\<lparr> hypotheses :=
                                                  dict_set (hypotheses state) aid failure_output,
                                                errors := errors state @ [structured_error] \<rparr>
                          in Inr (add_execution_trace (now_trace clk) new_state aid dur ''FAILED''
                                    (Some [(''error_code'', JStr code),
                                           (''retry_attempt'', JInt attempt)]))))))"

section \<open>Python strings and formatting\<close>

definition digit_char :: "nat \<Rightarrow> char" where
  "digit_char n = ''0123456789'' ! (n mod 10)"

function str_nat :: "nat \<Rightarrow> string" where
  "str_nat n = (if n < 10 then [digit_char n] else str_nat (n div 10) @ [digit_char (n mod 10)])"
  by pat_completeness auto
termination
  by (relation "measure id") auto

declare str_nat.simps [simp del]

text \<open>
  \<open>format(x, ".2f")\<close>: the sign, the integer digits, a point and two decimals, rounded to
  the nearest hundredth with ties to even.
\<close>

definition fmt_2f :: "real \<Rightarrow> string" where
  "fmt_2f x =
     (let n = nat (round_half_even (\<bar>x\<bar> * 100))
      in (if x < 0 then ''-'' else []) @ str_nat (n div 100) @ ''.''
           @ [digit_char ((n div 10) mod 10), digit_char (n mod 10)])"

text \<open>\<open>sep.join(parts)\<close>.\<close>

fun join :: "string \<Rightarrow> string list \<Rightarrow> string" where
  "join sep [] = []"
| "join sep [p] = p"
| "join sep (p # q # ps) = p @ sep @ join sep (q # ps)"

text \<open>A JSON value inside an f-string: a string as it is, anything else through \<open>str\<close>.\<close>

definition fmt_json :: "env \<Rightarrow> json \<Rightarrow> string" where
  "fmt_json e j = (case j of JStr s \<Rightarrow> s | _ \<Rightarrow> py_str e j)"

section \<open>Consensus aggregator (src/src/langgraph/consensus_node.py)\<close>

definition AGENT_WEIGHTS :: "(string \<times> real) list" where
  "AGENT_WEIGHTS =
     [(''signal-intelligence'', 1),
      (''historical-pattern'', 9 / 10),
      (''change-intelligence'', 9 / 10),
      (''risk-blast-radius'', 8 / 10),
      (''knowledge-rag'', 7 / 10),
      (''response-strategy'', 6 / 10)]"

definition CONFIDENCE_DIVERGENCE_THRESHOLD :: real where
  "CONFIDENCE_DIVERGENCE_THRESHOLD = 3 / 10"

text \<open>The loop of \<open>aggregate_confidence\<close>: the running weighted sum and the running weight.\<close>

fun weighted_sums ::
  "(string \<times> AgentOutput) list \<Rightarrow> (string \<times> real) list \<Rightarrow> real \<times> real \<Rightarrow> real \<times> real" where
  "weighted_sums [] agent_weights acc = acc"
| "weighted_sums ((aid, output) # hs) agent_weights (total_weighted_confidence, total_weight) =
     (let weight = dict_get agent_weights aid (1 / 2)
      in weighted_sums hs agent_weights
           (total_weighted_confidence + confidence output * weight, total_weight + weight))"

definition aggregate_confidence ::
  "(string \<times> AgentOutput) list \<Rightarrow> (string \<times> real) list \<Rightarrow> real" where
  "aggregate_confidence hyps agent_weights =
     (if hyps = [] then 0
      else (case weighted_sums hyps agent_weights (0, 0) of
              (total_weighted_confidence, total_weight) \<Rightarrow>
                if total_weight = 0 then 0
                else total_weighted_confidence / total_weight))"

definition compute_max_possible_std_dev :: "nat \<Rightarrow> real" where
  "compute_max_possible_std_dev n_agents = (if n_agents < 2 then 0 else 1 / 2)"

definition compute_agreement_level :: "(string \<times> AgentOutput) list \<Rightarrow> real" where
  "compute_agreement_level hyps =
     (let confidences = map confidence (dict_values hyps)
      in if length confidences < 2 then 1
         else
           (let mean_confidence = sum_list confidences / real (length confidences);
                variance = sum_list (map (\<lambda>c. (c - mean_confidence) ^ 2) confidences)
                             / real (length confidences);
                std_dev = variance powr (1 / 2)
            in if std_dev = 0 then 1
               else
                 (let max_std_dev = compute_max_possible_std_dev (length confidences);
                      level = 1 - std_dev / max_std_dev
                  in max 0 (min 1 level))))"


text \<open>
  Dictionary keys. A recommendation type is used as a key of a \<open>defaultdict\<close>: lists and
  dicts are unhashable (\<open>TypeError\<close>), and two keys are the same key when they are equal in
  Python, where \<open>True == 1 == 1.0\<close>.
\<close>

datatype hkey = HNone | HNum real | HStr string

fun hashable :: "json \<Rightarrow> hkey option" where
  "hashable JNull = Some HNone"
| "hashable (JBool b) = Some (HNum (if b then 1 else 0))"
| "hashable (JInt i) = Some (HNum (of_int i))"
| "hashable (JFloat x) = Some (HNum x)"
| "hashable (JStr s) = Some (HStr s)"
| "hashable (JArr l) = None"
| "hashable (JObj d) = None"

definition TypeError :: "string \<Rightarrow> exn" where
  "TypeError m = PyExn ''TypeError'' m"

text \<open>
  \<open>recommendations_by_type[key].append(v)\<close>: the groups in the order in which their keys
  first appeared, each keeping the key object that created it.
\<close>

fun group_add :: "(json \<times> 'v list) list \<Rightarrow> json \<Rightarrow> 'v \<Rightarrow> (json \<times> 'v list) list" where
  "group_add [] k v = [(k, [v])]"
| "group_add ((k', vs) # g) k v =
     (if hashable k' = hashable k then (k', vs @ [v]) # g else (k', vs) # group_add g k v)"

text \<open>\<open>findings["recommendations"]\<close> when the key is there and its value is a list.\<close>

definition recs_of :: "jdict \<Rightarrow> json list" where
  "recs_of fnd = (case dict_lookup fnd ''recommendations'' of Some (JArr l) \<Rightarrow> l | _ \<Rightarrow> [])"

text \<open>
  The grouping loops of \<open>detect_conflicts\<close> and \<open>synthesize_unified_recommendation\<close>
  differ in the items they keep and in what they store: \<open>pick\<close> gives the key and the
  stored tuple of an item that is kept.
\<close>

fun add_recs ::
  "(string \<Rightarrow> real \<Rightarrow> json \<Rightarrow> (json \<times> 'v) option) \<Rightarrow> string \<Rightarrow> real \<Rightarrow> json list
     \<Rightarrow> (json \<times> 'v list) list \<Rightarrow> exn + (json \<times> 'v list) list" where
  "add_recs pick aid conf [] g = Inr g"
| "add_recs pick aid conf (r # rs) g =
     (case pick aid conf r of
        None \<Rightarrow> add_recs pick aid conf rs g
      | Some (k, v) \<Rightarrow>
          (case hashable k of
             None \<Rightarrow> Inl (TypeError ''unhashable type'')
           | Some h \<Rightarrow> add_recs pick aid conf rs (group_add g k v)))"

fun group_recommendations ::
  "(string \<Rightarrow> real \<Rightarrow> json \<Rightarrow> (json \<times> 'v) option) \<Rightarrow> (string \<times> AgentOutput) list
     \<Rightarrow> (json \<times> 'v list) list \<Rightarrow> exn + (json \<times> 'v list) list" where
  "group_recommendations pick [] g = Inr g"
| "group_recommendations pick ((aid, output) # hs) g =
     (if status output = ''FAILURE'' then group_recommendations pick hs g
      else (case add_recs pick aid (confidence output) (recs_of (findings output)) g of
              Inl ex \<Rightarrow> Inl ex
            | Inr g' \<Rightarrow> group_recommendations pick hs g'))"

definition pick_typed :: "string \<Rightarrow> real \<Rightarrow> json \<Rightarrow> (json \<times> string \<times> real \<times> json) option" where
  "pick_typed aid conf r =
     (case r of
        JObj d \<Rightarrow> (case dict_lookup d ''type'' of
                     Some t \<Rightarrow> Some (t, (aid, conf, r))
                   | None \<Rightarrow> None)
      | _ \<Rightarrow> None)"

definition pick_described :: "string \<Rightarrow> real \<Rightarrow> json \<Rightarrow> (json \<times> string \<times> real \<times> json) option" where
  "pick_described aid conf r =
     (case r of
        JObj d \<Rightarrow> (case dict_lookup d ''type'' of
                     Some t \<Rightarrow> (case dict_lookup d ''description'' of
                                  Some ds \<Rightarrow> Some (t, (aid, conf, ds))
                                | None \<Rightarrow> None)
                   | None \<Rightarrow> None)
      | _ \<Rightarrow> None)"



text \<open>\<open>max(values, default=d)\<close> and \<open>min\<close>.\<close>

fun max_default :: "real \<Rightarrow> real list \<Rightarrow> real" where
  "max_default d [] = d"
| "max_default d (x # xs) = fold max xs x"

fun min_default :: "real \<Rightarrow> real list \<Rightarrow> real" where
  "min_default d [] = d"
| "min_default d (x # xs) = fold min xs x"

definition confs :: "(string \<times> real \<times> 'v) list \<Rightarrow> real list" where
  "confs agents = map (\<lambda>(aid, conf, v). conf) agents"

text \<open>\<open>next((aid for aid, conf, _ in agents if conf == c), "unknown")\<close>.\<close>

fun first_agent_with :: "real \<Rightarrow> (string \<times> real \<times> 'v) list \<Rightarrow> string" where
  "first_agent_with c [] = ''unknown''"
| "first_agent_with c ((aid, conf, v) # agents) =
     (if conf = c then aid else first_agent_with c agents)"

text \<open>The pairs \<open>(types[i], t)\<close> for \<open>t\<close> in \<open>types[i+1:]\<close>, in the order of the two loops.\<close>

fun type_pairs :: "'a list \<Rightarrow> ('a \<times> 'a) list" where
  "type_pairs [] = []"
| "type_pairs (x # xs) = map (Pair x) xs @ type_pairs xs"

definition action_type_conflict ::
  "env \<Rightarrow> real \<Rightarrow> (json \<times> (string \<times> real \<times> json) list) \<times> (json \<times> (string \<times> real \<times> json) list)
     \<Rightarrow> jdict list" where
  "action_type_conflict e confidence_threshold p =
     (case p of ((type1, agents1), (type2, agents2)) \<Rightarrow>
        (let max_conf1 = max_default 0 (confs agents1);
             max_conf2 = max_default 0 (confs agents2);
             confidence_diff = \<bar>max_conf1 - max_conf2\<bar>
         in if confidence_diff > confidence_threshold then
              (let agent_id1 = first_agent_with max_conf1 agents1;
                   agent_id2 = first_agent_with max_conf2 agents2
               in [[(''agents'', JArr [JStr agent_id1, JStr agent_id2]),
                    (''conflict_type'', JStr ''ACTION_TYPE_DIVERGENCE''),
                    (''description'',
                       JStr (agent_id1 @ '' recommends '' @ fmt_json e type1 @ '' (''
                             @ fmt_2f max_conf1 @ ''), '' @ agent_id2 @ '' recommends ''
                             @ fmt_json e type2 @ '' ('' @ fmt_2f max_conf2 @ '')'')),
                    (''resolution'',
                       JStr (''Highest confidence wins: ''
                             @ (if max_conf1 > max_conf2 then agent_id1 else agent_id2)
                             @ '' ('' @ fmt_2f (max max_conf1 max_conf2) @ '')''))]])
            else []))"

definition confidence_conflict ::
  "real \<Rightarrow> json \<times> (string \<times> real \<times> json) list \<Rightarrow> jdict list" where
  "confidence_conflict confidence_threshold p =
     (case p of (rec_type, agents) \<Rightarrow>
        if length agents < 2 then []
        else
          (let confidences = confs agents;
               max_conf = max_default 0 confidences;
               min_conf = min_default 0 confidences
           in if max_conf - min_conf > confidence_threshold then
                (let max_agent = first_agent_with max_conf agents;
                     min_agent = first_agent_with min_conf agents
                 in [[(''agents'', JArr [JStr max_agent, JStr min_agent]),
                      (''conflict_type'', JStr ''CONFIDENCE_DIVERGENCE''),
                      (''description'',
                         JStr (''Confidence difference: '' @ fmt_2f (max_conf - min_conf)
                               @ '' ('' @ fmt_2f max_conf @ '' vs '' @ fmt_2f min_conf @ '')'')),
                      (''resolution'',
                         JStr (''Highest confidence wins: '' @ max_agent @ '' (''
                               @ fmt_2f max_conf @ '')''))]])
              else []))"

definition detect_conflicts ::
  "env \<Rightarrow> (string \<times> AgentOutput) list \<Rightarrow> real \<Rightarrow> exn + jdict list" where
  "detect_conflicts e hyps confidence_threshold =
     (case group_recommendations pick_typed hyps [] of
        Inl ex \<Rightarrow> Inl ex
      | Inr recommendations_by_type \<Rightarrow>
          Inr (concat (map (action_type_conflict e confidence_threshold)
                         (type_pairs recommendations_by_type))
               @ concat (map (confidence_conflict confidence_threshold)
                           recommendations_by_type)))"

text \<open>
  \<open>sorted(xs, key=k, reverse=True)\<close> is stable: elements with equal keys keep their
  order. \<open>sort_key\<close> is a stable insertion sort, here on the negated key.
\<close>

definition sorted_desc :: "('a \<Rightarrow> real) \<Rightarrow> 'a list \<Rightarrow> 'a list" where
  "sorted_desc k xs = sort_key (\<lambda>x. - k x) xs"

definition group_max_conf :: "json \<times> (string \<times> real \<times> json) list \<Rightarrow> real" where
  "group_max_conf p = max_default 0 (confs (snd p))"

text \<open>
  \<open>description[:n]\<close> inside an f-string. A string is cut; a list is cut and printed by
  \<open>str\<close>; any other JSON value cannot be sliced.
\<close>

definition slice_description :: "env \<Rightarrow> nat \<Rightarrow> json \<Rightarrow> exn + string" where
  "slice_description e n ds =
     (case ds of
        JStr s \<Rightarrow> Inr (take n s)
      | JArr l \<Rightarrow> Inr (py_str e (JArr (take n l)))
      | _ \<Rightarrow> Inl (TypeError ''description cannot be sliced''))"

definition n_not_failed :: "(string \<times> AgentOutput) list \<Rightarrow> nat" where
  "n_not_failed hyps = length (filter (\<lambda>output. status output \<noteq> ''FAILURE'') (dict_values hyps))"

text \<open>One entry of the unified recommendation, for the \<open>i\<close>-th of the top types.\<close>

definition format_entry ::
  "env \<Rightarrow> (string \<times> AgentOutput) list \<Rightarrow> string \<Rightarrow> json \<times> (string \<times> real \<times> json) list
     \<Rightarrow> exn + string" where
  "format_entry e hyps label p =
     (case p of (rec_type, recs) \<Rightarrow>
        (case sorted_desc (\<lambda>(aid, conf, ds). conf) recs of
           [] \<Rightarrow> Inl (PyExn ''IndexError'' ''list index out of range'')
         | (aid, conf, description) # others \<Rightarrow>
             (let n_agree = length recs;
                  n_total = n_not_failed hyps
              in case slice_description e 100 description of
                   Inl ex \<Rightarrow> Inl ex
                 | Inr d \<Rightarrow>
                     Inr (label @ '': '' @ d @ '' (confidence: '' @ fmt_2f conf @ '', agents: ''
                          @ str_nat n_agree @ ''/'' @ str_nat n_total @ '' agree)''))))"

fun format_entries ::
  "env \<Rightarrow> (string \<times> AgentOutput) list \<Rightarrow> nat \<Rightarrow> (json \<times> (string \<times> real \<times> json) list) list
     \<Rightarrow> exn + string list" where
  "format_entries e hyps i [] = Inr []"
| "format_entries e hyps i (p # ps) =
     (case format_entry e hyps (if i = 0 then ''PRIMARY'' else ''ALTERNATIVE'') p of
        Inl ex \<Rightarrow> Inl ex
      | Inr part \<Rightarrow>
          (case format_entries e hyps (Suc i) ps of
             Inl ex \<Rightarrow> Inl ex
           | Inr parts \<Rightarrow> Inr (part # parts)))"

definition conflicts_part :: "jdict list \<Rightarrow> string" where
  "conflicts_part conflicts =
     (if conflicts \<noteq> [] then ''CONFLICTS: '' @ str_nat (length conflicts) @ '' detected''
      else ''CONFLICTS: None detected'')"

definition truncate_500 :: "string \<Rightarrow> string" where
  "truncate_500 unified = (if length unified > 500 then take 497 unified @ ''...'' else unified)"

definition synthesize_unified_recommendation ::
  "env \<Rightarrow> (string \<times> AgentOutput) list \<Rightarrow> jdict list \<Rightarrow> exn + string" where
  "synthesize_unified_recommendation e hyps conflicts =
     (let all_failed = list_all (\<lambda>output. status output = ''FAILURE'') (dict_values hyps)
      in if all_failed then Inr ''Insufficient data for recommendation. All agents failed.''
         else
           (case group_recommendations pick_described hyps [] of
              Inl ex \<Rightarrow> Inl ex
            | Inr recommendations_by_type \<Rightarrow>
                if recommendations_by_type = [] then Inr ''No actionable recommendations.''
                else
                  (let sorted_types = sorted_desc group_max_conf recommendations_by_type
                   in case format_entries e hyps 0 (take 2 sorted_types) of
                        Inl ex \<Rightarrow> Inl ex
                      | Inr parts \<Rightarrow>
                          Inr (truncate_500
                                 (join ''. '' (parts @ [conflicts_part conflicts]))))))"

text \<open>
  \<open>extract_minority_opinions\<close>. \<open>description[:50] not in unified\<close> needs a string on the
  left: a list raises \<open>TypeError\<close>, as does a value that cannot be sliced.
\<close>

fun minority_of_recs ::
  "env \<Rightarrow> string \<Rightarrow> real \<Rightarrow> string \<Rightarrow> json list \<Rightarrow> exn + string list" where
  "minority_of_recs e aid conf unified [] = Inr []"
| "minority_of_recs e aid conf unified (r # rs) =
     (case (case r of JObj d \<Rightarrow> dict_lookup d ''description'' | _ \<Rightarrow> None) of
        None \<Rightarrow> minority_of_recs e aid conf unified rs
      | Some description \<Rightarrow>
          (case description of
             JStr s \<Rightarrow>
               (case minority_of_recs e aid conf unified rs of
                  Inl ex \<Rightarrow> Inl ex
                | Inr ms \<Rightarrow>
                    if \<not> is_substring (take 50 s) unified
                    then Inr ((aid @ '' suggests '' @ take 100 s @ '' (confidence: ''
                               @ fmt_2f conf @ '')'') # ms)
                    else Inr ms)
           | _ \<Rightarrow> Inl (TypeError ''description is not a string'')))"

fun extract_minority_opinions ::
  "env \<Rightarrow> (string \<times> AgentOutput) list \<Rightarrow> string \<Rightarrow> exn + string list" where
  "extract_minority_opinions e [] unified = Inr []"
| "extract_minority_opinions e ((aid, output) # hs) unified =
     (if status output = ''FAILURE'' \<or> confidence output \<le> 1 / 2
      then extract_minority_opinions e hs unified
      else (case minority_of_recs e aid (confidence output) unified (recs_of (findings output)) of
              Inl ex \<Rightarrow> Inl ex
            | Inr ms \<Rightarrow>
                (case extract_minority_opinions e hs unified of
                   Inl ex \<Rightarrow> Inl ex
                 | Inr ms' \<Rightarrow> Inr (ms @ ms'))))"

definition compute_quality_metrics :: "(string \<times> AgentOutput) list \<Rightarrow> (string \<times> real) list" where
  "compute_quality_metrics hyps =
     (if hyps = [] then
        [(''data_completeness'', 0), (''citation_quality'', 0), (''reasoning_coherence'', 0)]
      else
        (let total_agents = length hyps;
             success_count = length (filter (\<lambda>output. status output = ''SUCCESS'')
                                       (dict_values hyps));
             data_completeness = (if total_agents > 0
                                  then real success_count / real total_agents else 0);
             citation_count = length (filter (\<lambda>output. case citations output of
                                                          None \<Rightarrow> False
                                                        | Some cs \<Rightarrow> cs \<noteq> [] \<and> length cs > 0)
                                        (dict_values hyps));
             citation_quality = (if total_agents > 0
                                 then real citation_count / real total_agents else 0);
             reasoning_coherence = compute_agreement_level hyps
         in [(''data_completeness'', data_completeness),
             (''citation_quality'', citation_quality),
             (''reasoning_coherence'', reasoning_coherence)]))"

text \<open>
  The node. \<open>Inl\<close> is a \<open>TypeError\<close> raised by a helper on an ill-typed recommendation; the
  node has no handler, so the exception leaves it.
\<close>

definition consensus_node :: "env \<Rightarrow> clock \<Rightarrow> GraphState \<Rightarrow> exn + GraphState" where
  "consensus_node e clk state =
     (let hyps = hypotheses state;
          agent_weights = AGENT_WEIGHTS;
          aggregated = aggregate_confidence hyps agent_weights;
          agreement = compute_agreement_level hyps
      in case detect_conflicts e hyps CONFIDENCE_DIVERGENCE_THRESHOLD of
           Inl ex \<Rightarrow> Inl ex
         | Inr conflicts \<Rightarrow>
        (case synthesize_unified_recommendation e hyps conflicts of
           Inl ex \<Rightarrow> Inl ex
         | Inr unified \<Rightarrow>
        (case extract_minority_opinions e hyps unified of
           Inl ex \<Rightarrow> Inl ex
         | Inr minority \<Rightarrow>
             (let quality = compute_quality_metrics hyps;
                  consensus_result =
                    \<lparr> aggregated_confidence = aggregated,
                      agreement_level = agreement,
                      conflicts_detected = conflicts,
                      unified_recommendation = unified,
                      minority_opinions = minority,
                      quality_metrics = quality,
                      cons_timestamp = now_output clk \<rparr>;
                  new_state = state\<lparr> consensus := Some consensus_result \<rparr>
              in Inr (add_execution_trace_det (now_trace clk) new_state ''consensus''
                        (elapsed_ms clk) ''COMPLETED''
                        (Some [(''aggregated_confidence'', JFloat aggregated),
                               (''agreement_level'', JFloat agreement),
                               (''conflicts_count'', JInt (int (length conflicts)))]))))))"

section \<open>PII redaction (src/src/tracing/redaction.py)\<close>
















section \<open>Concrete inputs\<close>

text \<open>The happy-path scenario of the specification (incident \<open>INC-T1\<close>) and variations of it.\<close>

definition ex_input :: AgentInput where
  "ex_input =
     \<lparr> incident_id = ''INC-T1'',
       evidence_bundle = [(''signals'', JArr [JObj [(''metric'', JStr ''CPU''),
                                                     (''value'', JFloat (191 / 2))]])],
       in_timestamp = ''2026-01-01T00:00:00'',
       in_execution_id = ''exec-1'',
       in_session_id = ''S1'',
       in_context = None,
       in_replay_metadata = None \<rparr>"

definition ex_state :: GraphState where
  "ex_state =
     \<lparr> agent_input = ex_input, hypotheses = [], consensus = None, cost_guardian = None,
       budget_remaining = 5, retry_count = [], execution_trace = [], errors = [],
       session_id = ''S1'', start_timestamp = ''2026-01-01T00:00:00'' \<rparr>"

definition ex_clock :: clock where
  "ex_clock =
     \<lparr> now_started = ''2026-01-01T00:00:01'', now_output = ''2026-01-01T00:00:02'',
       now_error = ''2026-01-01T00:00:02'', now_trace = ''2026-01-01T00:00:03'',
       elapsed_ms = 1500 \<rparr>"

definition ex_cfg :: agent_cfg where
  "ex_cfg =
     \<lparr> cfg_agent_id = ''signal-intelligence'', cfg_agent_version = ''1.0.0'',
       bedrock_agent_id = ''AGENT1'', bedrock_agent_alias_id = ''ALIAS1'',
       max_retries = MAX_RETRIES, timeout_seconds = 30 \<rparr>"

definition ex_response :: bedrock_response where
  "ex_response =
     \<lparr> guardrailAction = None, completion = Some [Inr (Some ''{...}'')], output_text = None,
       usage_inputTokens = Some 100, usage_outputTokens = Some 50, modelId = Some ''M'',
       keys_repr = ''[completion, usage, modelId]'' \<rparr>"

definition ex_raw :: raw_output where
  "ex_raw =
     \<lparr> ro_confidence = Some (JFloat (4 / 5)),
       ro_findings = Some [(''recommendations'',
                            JArr [JObj [(''type'', JStr ''INVESTIGATION''),
                                        (''description'', JStr ''check connection pool'')]])],
       ro_disclaimer = Some ''HYPOTHESIS_ONLY_NOT_AUTHORITATIVE'',
       ro_status = Some ''SUCCESS'',
       ro_reasoning = Some ''pool exhausted'',
       ro_citations = None,
       ro_error = None \<rparr>"

text \<open>An environment whose agent endpoint answers with \<open>r\<close>, parsed as \<open>raw\<close>.\<close>

definition env_with :: "(exn + bedrock_response) \<Rightarrow> raw_output \<Rightarrow> env" where
  "env_with r raw =
     \<lparr> invoke_agent = (\<lambda>req. r),
       json_loads = (\<lambda>t. Inr raw),
       json_dumps_sorted = (\<lambda>j. ''json''),
       sha256_hexdigest = (\<lambda>t. ''digest''),
       py_str = (\<lambda>j. ''?''),
       GUARDRAIL_ID = None,
       GUARDRAIL_VERSION = ''1'' \<rparr>"

definition env_of :: "(exn + bedrock_response) \<Rightarrow> env" where
  "env_of r = env_with r ex_raw"

definition ex_findings :: jdict where
  "ex_findings =
     [(''recommendations'',
       JArr [JObj [(''type'', JStr ''INVESTIGATION''),
                   (''description'', JStr ''check connection pool'')]])]"

definition ex_output :: "string \<Rightarrow> string \<Rightarrow> real \<Rightarrow> jdict \<Rightarrow> real \<Rightarrow> AgentOutput" where
  "ex_output aid st conf fnd c =
     \<lparr> agent_id = aid, agent_version = ''1.0.0'', execution_id = ''exec-1'',
       out_timestamp = ''2026-01-01T00:00:02'', duration = 1500, status = st,
       confidence = conf, reasoning = '''',
       disclaimer = ''HYPOTHESIS_ONLY_NOT_AUTHORITATIVE'', findings = fnd, citations = None,
       cost = \<lparr> inputTokens = Some 100, outputTokens = Some 50, estimatedCost = Some c,
                model = Some ''M'' \<rparr>,
       error = None,
       replay_metadata = \<lparr> deterministicHash = ''digest'', schemaVersion = ''1.0.0'' \<rparr> \<rparr>"

text \<open>Six successful agents, confidence 0.8 and cost 0.001125 USD each.\<close>

definition ex_hyps :: "(string \<times> AgentOutput) list" where
  "ex_hyps =
     map (\<lambda>aid. (aid, ex_output aid ''SUCCESS'' (4 / 5) ex_findings (9 / 8000)))
       [''signal-intelligence'', ''historical-pattern'', ''change-intelligence'',
        ''risk-blast-radius'', ''knowledge-rag'', ''response-strategy'']"





text \<open>
  The schema-failure scenario of the specification: \<open>knowledge-rag\<close> failed, the other five
  agents succeeded with confidence 0.8.
\<close>

definition ex_hyps_s3 :: "(string \<times> AgentOutput) list" where
  "ex_hyps_s3 =
     dict_set ex_hyps ''knowledge-rag''
       (ex_output ''knowledge-rag'' ''FAILURE'' 0 [(''error'', JStr ''UNKNOWN_ERROR'')] 0)"

definition ex_env :: env where
  "ex_env = env_with (Inr ex_response) ex_raw"



section \<open>Properties of the agent invoker\<close>

lemma dict_lookup_set_same: "dict_lookup (dict_set d k v) k = Some v"
  by (induction d) auto


lemma build_bedrock_request_trace:
  "build_bedrock_request e cfg (add_execution_trace now s nid dur st md)
     = build_bedrock_request e cfg s"
  by (simp add: add_execution_trace_def build_bedrock_request_def Let_def)

lemma agent_input_trace [simp]:
  "agent_input (add_execution_trace now s nid dur st md) = agent_input s"
  by (simp add: add_execution_trace_def)

lemma invoke_and_validate_trace:
  "invoke_and_validate e cfg (add_execution_trace now s nid dur st md)
     = invoke_and_validate e cfg s"
  unfolding invoke_and_validate_def build_bedrock_request_trace agent_input_trace ..

text \<open>The state that the failure path returns, written out.\<close>

lemma agent_node_failure_path:
  assumes "bedrock_agent_id cfg \<noteq> []" "bedrock_agent_alias_id cfg \<noteq> []"
    and "invoke_and_validate e cfg s = Inl (ex, response)"
    and "\<not> (is_retryable_error (map_exception_to_error_code ex)
             \<and> dict_get (retry_count s) (cfg_agent_id cfg) 0 < max_retries cfg)"
  shows "agent_node e clk cfg s =
     Inr (s\<lparr> execution_trace := execution_trace s @
              [\<lparr> node_id = cfg_agent_id cfg, tr_timestamp = now_started clk, duration_ms = 0,
                  tr_status = ''STARTED'',
                  metadata = Some [(''retry_attempt'',
                     JInt (dict_get (retry_count s) (cfg_agent_id cfg) 0))] \<rparr>,
               \<lparr> node_id = cfg_agent_id cfg, tr_timestamp = now_trace clk,
                  duration_ms = elapsed_ms clk, tr_status = ''FAILED'',
                  metadata = Some [(''error_code'', JStr (map_exception_to_error_code ex)),
                     (''retry_attempt'', JInt (dict_get (retry_count s) (cfg_agent_id cfg) 0))] \<rparr>],
            hypotheses := dict_set (hypotheses s) (cfg_agent_id cfg)
              (create_failure_hypothesis (now_output clk) (cfg_agent_id cfg) (cfg_agent_version cfg)
                 (in_execution_id (agent_input s)) (map_exception_to_error_code ex) (exn_str ex)
                 (is_retryable_error (map_exception_to_error_code ex))
                 (dict_get (retry_count s) (cfg_agent_id cfg) 0)
                 (extract_cost_metadata response (Some (map_exception_to_error_code ex)))),
            errors := errors s @
              [\<lparr> err_agent_id = cfg_agent_id cfg, error_code = map_exception_to_error_code ex,
                  message = exn_str ex,
                  retryable = is_retryable_error (map_exception_to_error_code ex),
                  err_timestamp = now_error clk,
                  retry_attempt = dict_get (retry_count s) (cfg_agent_id cfg) 0,
                  details = None \<rparr>] \<rparr>)"
  using assms
  by (simp add: agent_node_def Let_def invoke_and_validate_trace)
     (auto simp: add_execution_trace_def)

text \<open>The state that the retry path returns.\<close>

lemma agent_node_retry_path:
  assumes "bedrock_agent_id cfg \<noteq> []" "bedrock_agent_alias_id cfg \<noteq> []"
    and "invoke_and_validate e cfg s = Inl (ex, response)"
    and "is_retryable_error (map_exception_to_error_code ex)"
    and "dict_get (retry_count s) (cfg_agent_id cfg) 0 < max_retries cfg"
  shows "agent_node e clk cfg s =
     Inr (s\<lparr> execution_trace := execution_trace s @
              [\<lparr> node_id = cfg_agent_id cfg, tr_timestamp = now_started clk, duration_ms = 0,
                  tr_status = ''STARTED'',
                  metadata = Some [(''retry_attempt'',
                     JInt (dict_get (retry_count s) (cfg_agent_id cfg) 0))] \<rparr>,
               \<lparr> node_id = cfg_agent_id cfg, tr_timestamp = now_trace clk,
                  duration_ms = elapsed_ms clk, tr_status = ''RETRYING'',
                  metadata = Some [(''error_code'', JStr (map_exception_to_error_code ex)),
                     (''retry_attempt'', JInt (dict_get (retry_count s) (cfg_agent_id cfg) 0))] \<rparr>],
            retry_count := dict_set (retry_count s) (cfg_agent_id cfg)
              (dict_get (retry_count s) (cfg_agent_id cfg) 0 + 1) \<rparr>)"
  using assms
  by (simp add: agent_node_def Let_def invoke_and_validate_trace)
     (auto simp: add_execution_trace_def increment_retry_count_def Let_def)

text \<open>
  A validated output has the four required fields, a numeric confidence in [0, 1] and a
  known status: the fields that \<open>success_output\<close> reads are there.
\<close>

lemma validate_agent_output_fields:
  assumes "validate_agent_output e raw = None"
  shows "\<exists>conf c fnd disc st.
           ro_confidence raw = Some conf \<and> json_num conf = Some c \<and> 0 \<le> c \<and> c \<le> 1 \<and>
           ro_findings raw = Some fnd \<and> fnd \<noteq> [] \<and>
           ro_disclaimer raw = Some disc \<and>
           is_substring ''HYPOTHESIS_ONLY_NOT_AUTHORITATIVE'' disc \<and>
           ro_status raw = Some st \<and>
           st \<in> set [''SUCCESS'', ''PARTIAL'', ''TIMEOUT'', ''FAILURE'']"
  using assms
  by (auto simp: validate_agent_output_def split: option.splits if_splits)

lemma invoke_and_validate_validated:
  assumes "invoke_and_validate e cfg s = Inr (raw, response)"
  shows "validate_agent_output e raw = None"
  using assms
  by (auto simp: invoke_and_validate_def split: option.splits sum.splits if_splits)


lemma validate_agent_input_raises_ValueError:
  "validate_agent_input ai = Some ex \<Longrightarrow> \<exists>m. ex = ValueError m"
  by (auto simp: validate_agent_input_def split: if_splits)



lemma ex_cfg_configured: "bedrock_agent_id ex_cfg \<noteq> []" "bedrock_agent_alias_id ex_cfg \<noteq> []"
  by (simp_all add: ex_cfg_def)

lemma ex_raises:
  "invoke_and_validate (env_of (Inl ex)) ex_cfg ex_state = Inl (ex, None)"
  by (simp add: invoke_and_validate_def validate_agent_input_def env_of_def env_with_def
      ex_state_def ex_input_def)

text \<open>
  C1. Whenever the body of the node's \<open>try\<close> block raises an exception whose canonical code
  is not retryable, or is retryable while the agent's retry count has reached
  \<open>max_retries\<close>, the node returns a state (it raises nothing) in which the agent's slot of
  \<open>hypotheses\<close> holds a failure hypothesis: status \<open>FAILURE\<close>, confidence 0, findings
  \<open>{"error": code}\<close>, reasoning \<open>"Agent failed: " + str(e)\<close>, the fixed disclaimer and the
  deterministic hash \<open>"FAILURE"\<close>. Exactly one \<open>StructuredError\<close> of this agent is appended
  to \<open>errors\<close>, and the trace grows by the \<open>STARTED\<close> entry and a \<open>FAILED\<close> entry.
\<close>

theorem failure_as_hypothesis:
  assumes cfg: "bedrock_agent_id cfg \<noteq> []" "bedrock_agent_alias_id cfg \<noteq> []"
    and raised: "invoke_and_validate e cfg s = Inl (ex, response)"
    and final: "\<not> is_retryable_error (map_exception_to_error_code ex)
                \<or> max_retries cfg \<le> dict_get (retry_count s) (cfg_agent_id cfg) 0"
  shows "\<exists>s' h se started failed.
           agent_node e clk cfg s = Inr s' \<and>
           dict_lookup (hypotheses s') (cfg_agent_id cfg) = Some h \<and>
           status h = ''FAILURE'' \<and>
           confidence h = 0 \<and>
           findings h = [(''error'', JStr (map_exception_to_error_code ex))] \<and>
           reasoning h = ''Agent failed: '' @ exn_str ex \<and>
           disclaimer h = ''HYPOTHESIS_ONLY_NOT_AUTHORITATIVE'' \<and>
           deterministicHash (replay_metadata h) = ''FAILURE'' \<and>
           errors s' = errors s @ [se] \<and>
           err_agent_id se = cfg_agent_id cfg \<and>
           error_code se = map_exception_to_error_code ex \<and>
           message se = exn_str ex \<and>
           retryable se = is_retryable_error (map_exception_to_error_code ex) \<and>
           execution_trace s' = execution_trace s @ [started, failed] \<and>
           node_id started = cfg_agent_id cfg \<and> tr_status started = ''STARTED'' \<and>
           node_id failed = cfg_agent_id cfg \<and> tr_status failed = ''FAILED''"
proof -
  from final have "\<not> (is_retryable_error (map_exception_to_error_code ex)
             \<and> dict_get (retry_count s) (cfg_agent_id cfg) 0 < max_retries cfg)"
    by auto
  from agent_node_failure_path [OF cfg raised this, of clk]
  show ?thesis
    by (simp add: dict_lookup_set_same create_failure_hypothesis_def)
qed

text \<open>
  Witness for C1: the endpoint of \<open>signal-intelligence\<close> denies access on the first attempt.
\<close>

theorem failure_as_hypothesis_witness:
  "bedrock_agent_id ex_cfg \<noteq> [] \<and> bedrock_agent_alias_id ex_cfg \<noteq> [] \<and>
   invoke_and_validate (env_of (Inl (ClientError (Some ''AccessDeniedException'') ''denied'')))
     ex_cfg ex_state = Inl (ClientError (Some ''AccessDeniedException'') ''denied'', None) \<and>
   \<not> is_retryable_error
       (map_exception_to_error_code (ClientError (Some ''AccessDeniedException'') ''denied'')) \<and>
   (\<exists>s' h se.
      agent_node (env_of (Inl (ClientError (Some ''AccessDeniedException'') ''denied'')))
        ex_clock ex_cfg ex_state = Inr s' \<and>
      dict_lookup (hypotheses s') ''signal-intelligence'' = Some h \<and>
      status h = ''FAILURE'' \<and> confidence h = 0 \<and>
      findings h = [(''error'', JStr ''INTERNAL_ERROR'')] \<and>
      reasoning h = ''Agent failed: denied'' \<and>
      errors s' = [se] \<and> err_agent_id se = ''signal-intelligence'')"
proof -
  let ?ex = "ClientError (Some ''AccessDeniedException'') ''denied''"
  have code: "map_exception_to_error_code ?ex = ''INTERNAL_ERROR''"
    by (simp add: ERROR_CODE_MAPPING_def dict_get_def)
  have nr: "\<not> is_retryable_error (map_exception_to_error_code ?ex)"
    unfolding code by (simp add: is_retryable_error_def RETRYABLE_ERROR_CODES_def)
  then have fin: "\<not> is_retryable_error (map_exception_to_error_code ?ex)
      \<or> max_retries ex_cfg \<le> dict_get (retry_count ex_state) (cfg_agent_id ex_cfg) 0"
    by simp
  from failure_as_hypothesis [OF ex_cfg_configured ex_raises fin, of ex_clock]
  show ?thesis
    using ex_cfg_configured ex_raises [of ?ex] nr
    unfolding code by (simp add: ex_cfg_def ex_state_def) blast
qed

text \<open>
  C5. The claim asks that an exception classified as \<open>TIMEOUT\<close> or
  \<open>DATA_SOURCE_UNAVAILABLE\<close> be retried while attempts remain. The node tests the canonical
  code against \<open>RETRYABLE_ERROR_CODES\<close>, which lists the raw names
  \<open>TimeoutException\<close> and \<open>ServiceUnavailableException\<close> but neither canonical code: on
  the first attempt (retry count 0, \<open>max_retries\<close> 2) a \<open>TimeoutError\<close> and a
  \<open>ServiceUnavailableException\<close> both end in a failure hypothesis, with no \<open>RETRYING\<close>
  entry and an unchanged \<open>retry_count\<close>.
\<close>

theorem timeout_and_unavailable_not_retried:
  "map_exception_to_error_code (PyExn ''TimeoutError'' m) = ''TIMEOUT'' \<and>
   \<not> is_retryable_error ''TIMEOUT'' \<and>
   map_exception_to_error_code (ClientError (Some ''ServiceUnavailableException'') m)
     = ''DATA_SOURCE_UNAVAILABLE'' \<and>
   \<not> is_retryable_error ''DATA_SOURCE_UNAVAILABLE'' \<and>
   dict_get (retry_count ex_state) (cfg_agent_id ex_cfg) 0 < max_retries ex_cfg \<and>
   (\<exists>s' h. agent_node (env_of (Inl (PyExn ''TimeoutError'' m))) clk ex_cfg ex_state = Inr s' \<and>
      retry_count s' = retry_count ex_state \<and>
      dict_lookup (hypotheses s') ''signal-intelligence'' = Some h \<and>
      status h = ''FAILURE'' \<and> findings h = [(''error'', JStr ''TIMEOUT'')] \<and>
      map tr_status (execution_trace s') = [''STARTED'', ''FAILED'']) \<and>
   (\<exists>s' h. agent_node (env_of (Inl (ClientError (Some ''ServiceUnavailableException'') m)))
              clk ex_cfg ex_state = Inr s' \<and>
      retry_count s' = retry_count ex_state \<and>
      dict_lookup (hypotheses s') ''signal-intelligence'' = Some h \<and>
      status h = ''FAILURE'' \<and> findings h = [(''error'', JStr ''DATA_SOURCE_UNAVAILABLE'')] \<and>
      map tr_status (execution_trace s') = [''STARTED'', ''FAILED''])"
proof -
  let ?t = "PyExn ''TimeoutError'' m"
  let ?u = "ClientError (Some ''ServiceUnavailableException'') m"
  have ct: "map_exception_to_error_code ?t = ''TIMEOUT''"
    by (simp add: ERROR_CODE_MAPPING_def dict_get_def)
  have cu: "map_exception_to_error_code ?u = ''DATA_SOURCE_UNAVAILABLE''"
    by (simp add: ERROR_CODE_MAPPING_def dict_get_def)
  have nt: "\<not> is_retryable_error ''TIMEOUT''"
    and nu: "\<not> is_retryable_error ''DATA_SOURCE_UNAVAILABLE''"
    by (simp_all add: is_retryable_error_def RETRYABLE_ERROR_CODES_def)
  have attempts: "dict_get (retry_count ex_state) (cfg_agent_id ex_cfg) 0 < max_retries ex_cfg"
    by (simp add: ex_state_def ex_cfg_def dict_get_def MAX_RETRIES_def)
  have pt: "\<not> (is_retryable_error (map_exception_to_error_code ?t)
       \<and> dict_get (retry_count ex_state) (cfg_agent_id ex_cfg) 0 < max_retries ex_cfg)"
    unfolding ct using nt by simp
  have pu: "\<not> (is_retryable_error (map_exception_to_error_code ?u)
       \<and> dict_get (retry_count ex_state) (cfg_agent_id ex_cfg) 0 < max_retries ex_cfg)"
    unfolding cu using nu by simp
  have rt: "\<exists>s' h. agent_node (env_of (Inl ?t)) clk ex_cfg ex_state = Inr s' \<and>
      retry_count s' = retry_count ex_state \<and>
      dict_lookup (hypotheses s') ''signal-intelligence'' = Some h \<and>
      status h = ''FAILURE'' \<and> findings h = [(''error'', JStr ''TIMEOUT'')] \<and>
      map tr_status (execution_trace s') = [''STARTED'', ''FAILED'']"
    using agent_node_failure_path [OF ex_cfg_configured ex_raises pt, of clk]
    unfolding ct
    by (simp add: ex_cfg_def ex_state_def create_failure_hypothesis_def)
  have ru: "\<exists>s' h. agent_node (env_of (Inl ?u)) clk ex_cfg ex_state = Inr s' \<and>
      retry_count s' = retry_count ex_state \<and>
      dict_lookup (hypotheses s') ''signal-intelligence'' = Some h \<and>
      status h = ''FAILURE'' \<and> findings h = [(''error'', JStr ''DATA_SOURCE_UNAVAILABLE'')] \<and>
      map tr_status (execution_trace s') = [''STARTED'', ''FAILED'']"
    using agent_node_failure_path [OF ex_cfg_configured ex_raises pu, of clk]
    unfolding cu
    by (simp add: ex_cfg_def ex_state_def create_failure_hypothesis_def)
  from ct cu nt nu attempts rt ru show ?thesis by blast
qed


section \<open>Properties of the cost guardian\<close>

lemma dict_set_fresh: "k \<notin> fst ` set d \<Longrightarrow> dict_set d k v = d @ [(k, v)]"
  by (induction d) auto

lemma aggregate_per_agent_costs_distinct:
  assumes "distinct (map fst hs)" "fst ` set hs \<inter> fst ` set acc = {}"
  shows "aggregate_per_agent_costs hs acc
           = acc @ map (\<lambda>(aid, output). (aid, agent_cost_of output)) hs"
  using assms
proof (induction hs arbitrary: acc)
  case Nil
  then show ?case by simp
next
  case (Cons p hs)
  obtain aid outp where p: "p = (aid, outp)" by (cases p)
  from Cons.prems p have fresh: "aid \<notin> fst ` set acc" by auto
  from Cons.prems p have "distinct (map fst hs)"
    and "fst ` set hs \<inter> fst ` set (acc @ [(aid, agent_cost_of outp)]) = {}"
    by auto
  from Cons.IH [OF this] show ?case
    by (simp add: p dict_set_fresh [OF fresh])
qed

text \<open>
  C2. The cost guardian stores \<open>total_cost\<close>, the sum of the per-agent costs rounded to 6
  decimals (one entry per agent output, its cost the output's \<open>estimatedCost\<close>), lowers
  \<open>budget_remaining\<close> by exactly that amount (the result may be negative), and raises
  \<open>budget_exceeded\<close> if and only if the budget before was negative or smaller than the
  total cost. A non-negative total cost equal to the budget before does not raise the
  flag.
\<close>

theorem cost_guardian_arithmetic:
  "\<exists>r. cost_guardian (cost_guardian_node clk s) = Some r \<and>
       per_agent_cost r = aggregate_per_agent_costs (hypotheses s) [] \<and>
       (distinct (map fst (hypotheses s)) \<longrightarrow>
          per_agent_cost r
            = map (\<lambda>(aid, output). (aid, agent_cost_of output)) (hypotheses s)) \<and>
       total_cost r = py_round (sum_list (map ac_cost (dict_values (per_agent_cost r)))) 6 \<and>
       cg_budget_remaining r = budget_remaining s - total_cost r \<and>
       budget_remaining (cost_guardian_node clk s) = budget_remaining s - total_cost r \<and>
       (budget_exceeded r \<longleftrightarrow> budget_remaining s < 0 \<or> budget_remaining s < total_cost r) \<and>
       (0 \<le> total_cost r \<and> total_cost r = budget_remaining s \<longrightarrow> \<not> budget_exceeded r)"
  using aggregate_per_agent_costs_distinct [of "hypotheses s" "[]"]
  by (auto simp: cost_guardian_node_def Let_def add_execution_trace_det_def
      calculate_total_cost_def calculate_budget_remaining_def check_budget_exceeded_def)

lemma ex_hyps_costs:
  "aggregate_per_agent_costs ex_hyps [] =
     map (\<lambda>aid. (aid, \<lparr> ac_inputTokens = 100, ac_outputTokens = 50, ac_cost = 9 / 8000,
                          ac_model = ''M'' \<rparr>))
       [''signal-intelligence'', ''historical-pattern'', ''change-intelligence'',
        ''risk-blast-radius'', ''knowledge-rag'', ''response-strategy'']"
  by (simp add: ex_hyps_def ex_output_def agent_cost_of_def)

lemma py_round_6750: "py_round (27 / 4000) 6 = 27 / 4000"
  by (simp add: py_round_def round_half_even_def Let_def)

text \<open>
  Witness for C2: six agents at 0.001125 USD each against a budget of exactly 0.00675 USD.
\<close>

theorem cost_guardian_arithmetic_witness:
  "\<exists>r. cost_guardian (cost_guardian_node ex_clock
            (ex_state\<lparr> hypotheses := ex_hyps, budget_remaining := 27 / 4000 \<rparr>)) = Some r \<and>
       distinct (map fst ex_hyps) \<and>
       map (ac_cost \<circ> snd) (per_agent_cost r) = [9 / 8000, 9 / 8000, 9 / 8000, 9 / 8000, 9 / 8000, 9 / 8000] \<and>
       total_cost r = 27 / 4000 \<and> 0 \<le> total_cost r \<and>
       budget_remaining (cost_guardian_node ex_clock
            (ex_state\<lparr> hypotheses := ex_hyps, budget_remaining := 27 / 4000 \<rparr>)) = 0 \<and>
       \<not> budget_exceeded r"
proof -
  let ?s = "ex_state\<lparr> hypotheses := ex_hyps, budget_remaining := 27 / 4000 \<rparr>"
  have d: "distinct (map fst ex_hyps)"
    by (simp add: ex_hyps_def)
  from cost_guardian_arithmetic [of ex_clock ?s]
  obtain r where r: "cost_guardian (cost_guardian_node ex_clock ?s) = Some r"
    and pa: "distinct (map fst (hypotheses ?s)) \<longrightarrow>
          per_agent_cost r = map (\<lambda>(aid, output). (aid, agent_cost_of output)) (hypotheses ?s)"
    and tot: "total_cost r = py_round (sum_list (map ac_cost (dict_values (per_agent_cost r)))) 6"
    and br: "budget_remaining (cost_guardian_node ex_clock ?s) = budget_remaining ?s - total_cost r"
    and ex: "0 \<le> total_cost r \<and> total_cost r = budget_remaining ?s \<longrightarrow> \<not> budget_exceeded r"
    by blast
  from pa d have "per_agent_cost r = map (\<lambda>(aid, output). (aid, agent_cost_of output)) ex_hyps"
    by simp
  then have costs: "map (ac_cost \<circ> snd) (per_agent_cost r)
      = [9 / 8000, 9 / 8000, 9 / 8000, 9 / 8000, 9 / 8000, 9 / 8000]"
    by (simp add: ex_hyps_def ex_output_def agent_cost_of_def)
  have "sum_list (map ac_cost (dict_values (per_agent_cost r)))
      = sum_list (map (ac_cost \<circ> snd) (per_agent_cost r))"
    by (simp add: dict_values_def)
  also have "\<dots> = 27 / 4000"
    unfolding costs by simp
  finally have sum: "sum_list (map ac_cost (dict_values (per_agent_cost r))) = 27 / 4000" .
  have t: "total_cost r = 27 / 4000"
    unfolding tot sum by (rule py_round_6750)
  from t br have b: "budget_remaining (cost_guardian_node ex_clock ?s) = 0"
    by simp
  from t ex have "\<not> budget_exceeded r"
    by simp
  with r d costs t b show ?thesis
    by (intro exI [of _ r]) simp
qed

section \<open>The deterministic hash\<close>








section \<open>Properties of the consensus aggregator\<close>







lemma weighted_sums_eq:
  "weighted_sums H W (a, b) =
     (a + (\<Sum>(aid, output)\<leftarrow>H. confidence output * dict_get W aid (1 / 2)),
      b + (\<Sum>(aid, output)\<leftarrow>H. dict_get W aid (1 / 2)))"
  by (induction H arbitrary: a b) (auto simp: Let_def)

lemma aggregate_confidence_eq:
  "aggregate_confidence H W =
     (if H = [] \<or> (\<Sum>(aid, output)\<leftarrow>H. dict_get W aid (1 / 2)) = 0 then 0
      else (\<Sum>(aid, output)\<leftarrow>H. confidence output * dict_get W aid (1 / 2))
           / (\<Sum>(aid, output)\<leftarrow>H. dict_get W aid (1 / 2)))"
  by (simp add: aggregate_confidence_def weighted_sums_eq)

lemma consensus_node_result:
  assumes "consensus_node e clk s = Inr s'"
  shows "\<exists>conflicts unified minority.
           detect_conflicts e (hypotheses s) CONFIDENCE_DIVERGENCE_THRESHOLD = Inr conflicts \<and>
           synthesize_unified_recommendation e (hypotheses s) conflicts = Inr unified \<and>
           extract_minority_opinions e (hypotheses s) unified = Inr minority \<and>
           s' = s\<lparr> consensus := Some
                      \<lparr> aggregated_confidence = aggregate_confidence (hypotheses s) AGENT_WEIGHTS,
                        agreement_level = compute_agreement_level (hypotheses s),
                        conflicts_detected = conflicts,
                        unified_recommendation = unified,
                        minority_opinions = minority,
                        quality_metrics = compute_quality_metrics (hypotheses s),
                        cons_timestamp = now_output clk \<rparr>,
                    execution_trace := execution_trace s @
                      [\<lparr> node_id = ''consensus'', tr_timestamp = now_trace clk,
                          duration_ms = elapsed_ms clk, tr_status = ''COMPLETED'',
                          metadata = Some
                            [(''aggregated_confidence'',
                                JFloat (aggregate_confidence (hypotheses s) AGENT_WEIGHTS)),
                             (''agreement_level'', JFloat (compute_agreement_level (hypotheses s))),
                             (''conflicts_count'', JInt (int (length conflicts)))] \<rparr>] \<rparr>"
  using assms
  by (auto simp: consensus_node_def Let_def add_execution_trace_det_def split: sum.splits)

text \<open>
  C9, amended. The \<open>aggregated_confidence\<close> that the consensus node stores is the value of
  \<open>aggregate_confidence\<close> as it is: the weighted sum of the confidences divided by the sum of
  the weights (0 for an empty map or a zero weight sum), with no rounding.
\<close>

theorem aggregated_confidence_unrounded:
  "consensus_node e clk s = Inr s' \<longrightarrow>
     (\<exists>r. consensus s' = Some r \<and>
        aggregated_confidence r = aggregate_confidence (hypotheses s) AGENT_WEIGHTS \<and>
        aggregated_confidence r =
          (if hypotheses s = []
              \<or> (\<Sum>(aid, output)\<leftarrow>hypotheses s. dict_get AGENT_WEIGHTS aid (1 / 2)) = 0
           then 0
           else (\<Sum>(aid, output)\<leftarrow>hypotheses s. confidence output * dict_get AGENT_WEIGHTS aid (1 / 2))
                / (\<Sum>(aid, output)\<leftarrow>hypotheses s. dict_get AGENT_WEIGHTS aid (1 / 2))))"
proof
  assume "consensus_node e clk s = Inr s'"
  from consensus_node_result [OF this] show "\<exists>r. consensus s' = Some r \<and>
        aggregated_confidence r = aggregate_confidence (hypotheses s) AGENT_WEIGHTS \<and>
        aggregated_confidence r =
          (if hypotheses s = []
              \<or> (\<Sum>(aid, output)\<leftarrow>hypotheses s. dict_get AGENT_WEIGHTS aid (1 / 2)) = 0
           then 0
           else (\<Sum>(aid, output)\<leftarrow>hypotheses s. confidence output * dict_get AGENT_WEIGHTS aid (1 / 2))
                / (\<Sum>(aid, output)\<leftarrow>hypotheses s. dict_get AGENT_WEIGHTS aid (1 / 2)))"
    by (auto simp: aggregate_confidence_eq)
qed

lemma ex_s3_runs: "\<not> isl (consensus_node ex_env ex_clock (ex_state\<lparr> hypotheses := ex_hyps_s3 \<rparr>))"
  by code_simp

lemma ex_s3_aggregate: "aggregate_confidence ex_hyps_s3 AGENT_WEIGHTS = 24 / 35"
  by (simp add: aggregate_confidence_eq ex_hyps_s3_def ex_hyps_def AGENT_WEIGHTS_def dict_get_def
      ex_output_def)

lemma py_round_24_35: "py_round (24 / 35) 4 = 6857 / 10000"
  by (simp add: py_round_def round_half_even_def Let_def)

text \<open>
  C9, as claimed, fails: in the schema-failure scenario (five agents at 0.8, \<open>knowledge-rag\<close>
  failed at 0) the stored value is 24/35 = 0.685714..., which rounding to 4 decimals
  would change to 0.6857.
\<close>

theorem aggregated_confidence_not_rounded:
  "\<not> isl (consensus_node ex_env ex_clock (ex_state\<lparr> hypotheses := ex_hyps_s3 \<rparr>)) \<and>
   consensus (projr (consensus_node ex_env ex_clock (ex_state\<lparr> hypotheses := ex_hyps_s3 \<rparr>)))
     \<noteq> None \<and>
   py_round (aggregated_confidence (the (consensus (projr
       (consensus_node ex_env ex_clock (ex_state\<lparr> hypotheses := ex_hyps_s3 \<rparr>)))))) 4
     \<noteq> aggregated_confidence (the (consensus (projr
       (consensus_node ex_env ex_clock (ex_state\<lparr> hypotheses := ex_hyps_s3 \<rparr>)))))"
proof -
  let ?n = "consensus_node ex_env ex_clock (ex_state\<lparr> hypotheses := ex_hyps_s3 \<rparr>)"
  from ex_s3_runs obtain s' where s': "?n = Inr s'"
    by (cases ?n) auto
  from consensus_node_result [OF s']
  obtain r where r: "consensus s' = Some r"
    and a: "aggregated_confidence r = aggregate_confidence ex_hyps_s3 AGENT_WEIGHTS"
    by auto
  from a have a': "aggregated_confidence r = 24 / 35"
    by (simp only: ex_s3_aggregate)
  have "py_round (aggregated_confidence r) 4 \<noteq> aggregated_confidence r"
    unfolding a' py_round_24_35 by simp
  with r show ?thesis
    unfolding s' by simp
qed

text \<open>Witness for the amended C9, on the same scenario.\<close>

theorem aggregated_confidence_unrounded_witness:
  "consensus_node ex_env ex_clock (ex_state\<lparr> hypotheses := ex_hyps_s3 \<rparr>)
     = Inr (projr (consensus_node ex_env ex_clock (ex_state\<lparr> hypotheses := ex_hyps_s3 \<rparr>))) \<and>
   map_option aggregated_confidence
     (consensus (projr (consensus_node ex_env ex_clock (ex_state\<lparr> hypotheses := ex_hyps_s3 \<rparr>))))
     = Some (24 / 35)"
proof -
  let ?n = "consensus_node ex_env ex_clock (ex_state\<lparr> hypotheses := ex_hyps_s3 \<rparr>)"
  from ex_s3_runs have s': "?n = Inr (projr ?n)"
    by (cases ?n) auto
  from aggregated_confidence_unrounded [of ex_env ex_clock "ex_state\<lparr> hypotheses := ex_hyps_s3 \<rparr>" "projr ?n"] s'
  obtain r where "consensus (projr ?n) = Some r"
    "aggregated_confidence r = aggregate_confidence ex_hyps_s3 AGENT_WEIGHTS"
    by auto
  with s' show ?thesis by (simp add: ex_s3_aggregate)
qed

section \<open>Frame properties of the nodes\<close>



lemma cost_guardian_node_frame:
  "agent_input (cost_guardian_node clk s) = agent_input s"
  "hypotheses (cost_guardian_node clk s) = hypotheses s"
  by (simp_all add: cost_guardian_node_def Let_def add_execution_trace_det_def)










section \<open>The unified recommendation\<close>





















section \<open>Properties of the PII redaction\<close>





end
